theory Spec2Isabelle
  imports Main
begin

section \<open>Course registration (Tugas\_Mandiri.py)\<close>

subsection \<open>Entities\<close>

text \<open>
  The two dataclasses of the module. Python integers are unbounded, so the credit
  counts are \<open>int\<close>; the schedule is an ordered list of slot codes.
\<close>

record student =
  name :: string
  current_sks :: int
  prerequisites_met :: bool
  schedule :: "string list"

record course =
  code :: string
  sks :: int
  prerequisite_needed :: bool
  schedule_code :: string

subsection \<open>Log records\<close>

text \<open>
  Every call of \<open>LOGGER\<close> becomes one record: its level and which message it is, with
  the values the f-string interpolates. The rendering of a record as text (timestamp,
  decoration) is not modelled.
\<close>

datatype level = INFO | WARNING | ERROR

datatype reg_message =
    Memulai_pendaftaran string string
  | Gagal_sks string int int
  | Gagal_prasyarat string string
  | Gagal_bentrok string string
  | Pendaftaran_dibatalkan
  | Pendaftaran_berhasil string
  | Pesan_lain string

type_synonym reg_log = "(level \<times> reg_message) list"

subsection \<open>Validation rules\<close>

text \<open>
  A call of a method that receives the student and the course by reference is a
  function to: the value returned, the student and the course as the call leaves
  them, and the log records it emitted.
\<close>

type_synonym 'a outcome = "'a \<times> student \<times> course \<times> reg_log"

fun returned :: "'a outcome \<Rightarrow> 'a" where
  "returned (b, s, c, lg) = b"

fun student_after :: "'a outcome \<Rightarrow> student" where
  "student_after (b, s, c, lg) = s"

fun course_after :: "'a outcome \<Rightarrow> course" where
  "course_after (b, s, c, lg) = c"

fun logged :: "'a outcome \<Rightarrow> reg_log" where
  "logged (b, s, c, lg) = lg"

definition MAX_SKS :: int where
  "MAX_SKS = 24"

definition SksLimitRule_validate :: "student \<Rightarrow> course \<Rightarrow> bool outcome" where
  "SksLimitRule_validate s c =
     (if current_sks s + sks c > MAX_SKS
      then (False, s, c,
            [(WARNING, Gagal_sks (name s) (current_sks s + sks c) MAX_SKS)])
      else (True, s, c, []))"

definition PrerequisiteRule_validate :: "student \<Rightarrow> course \<Rightarrow> bool outcome" where
  "PrerequisiteRule_validate s c =
     (if prerequisite_needed c \<and> \<not> prerequisites_met s
      then (False, s, c, [(WARNING, Gagal_prasyarat (name s) (code c))])
      else (True, s, c, []))"

definition JadwalBentrokRule_validate :: "student \<Rightarrow> course \<Rightarrow> bool outcome" where
  "JadwalBentrokRule_validate s c =
     (if schedule_code c \<in> set (schedule s)
      then (False, s, c, [(WARNING, Gagal_bentrok (schedule_code c) (name s))])
      else (True, s, c, []))"

text \<open>
  The implementations of \<open>IValidationRule\<close>. The three classes of the module are
  constructors of their own. The interface is open to further classes, whose bodies
  are not in the module: \<open>Other_rule f\<close> stands for one that keeps the contract of
  \<open>validate\<close>, which answers with a boolean and may log, and leaves the student and
  the course as they are.
\<close>

datatype rule =
    SksLimitRule
  | PrerequisiteRule
  | JadwalBentrokRule
  | Other_rule "student \<Rightarrow> course \<Rightarrow> bool \<times> reg_log"

fun validate :: "rule \<Rightarrow> student \<Rightarrow> course \<Rightarrow> bool outcome" where
  "validate SksLimitRule s c = SksLimitRule_validate s c"
| "validate PrerequisiteRule s c = PrerequisiteRule_validate s c"
| "validate JadwalBentrokRule s c = JadwalBentrokRule_validate s c"
| "validate (Other_rule f) s c = (case f s c of (b, lg) \<Rightarrow> (b, s, c, lg))"

subsection \<open>The coordinator\<close>

text \<open>
  The \<open>for\<close> loop of \<open>register_course\<close>: each rule is called on the objects as the
  previous call left them; the first rule that answers false logs the cancellation
  and ends the loop with false, and the rules after it are not called.
\<close>

fun validation_loop :: "rule list \<Rightarrow> student \<Rightarrow> course \<Rightarrow> bool outcome" where
  "validation_loop [] s c = (True, s, c, [])"
| "validation_loop (r # rs) s c =
     (case validate r s c of (ok, s1, c1, lg) \<Rightarrow>
        if \<not> ok then (False, s1, c1, lg @ [(INFO, Pendaftaran_dibatalkan)])
        else (case validation_loop rs s1 c1 of (ok', s2, c2, lg') \<Rightarrow>
                (ok', s2, c2, lg @ lg')))"

definition register_course :: "rule list \<Rightarrow> student \<Rightarrow> course \<Rightarrow> bool outcome" where
  "register_course validation_rules s c =
     (case validation_loop validation_rules s c of (ok, s1, c1, lg) \<Rightarrow>
        if \<not> ok
        then (False, s1, c1, (INFO, Memulai_pendaftaran (code c) (name s)) # lg)
        else (True,
              s1\<lparr>current_sks := current_sks s1 + sks c1,
                 schedule := schedule s1 @ [schedule_code c1]\<rparr>,
              c1,
              (INFO, Memulai_pendaftaran (code c) (name s)) # lg
                @ [(INFO, Pendaftaran_berhasil (code c1))]))"

text \<open>
  A client that registers one student for several courses in turn through the same
  service, as the main program of the module does: each call works on the student as
  the previous call left it.
\<close>

fun register_courses :: "rule list \<Rightarrow> student \<Rightarrow> course list \<Rightarrow> student" where
  "register_courses validation_rules s [] = s"
| "register_courses validation_rules s (c # cs) =
     register_courses validation_rules
       (student_after (register_course validation_rules s c)) cs"

subsection \<open>The data of the main program\<close>

definition student_andi :: student where
  "student_andi = \<lparr>name = ''Andi'', current_sks = 15, prerequisites_met = True,
                   schedule = [''Selasa_10.00'', ''Rabu_13.00'']\<rparr>"

definition student_budi :: student where
  "student_budi = \<lparr>name = ''Budi'', current_sks = 22, prerequisites_met = False,
                   schedule = [''Jumat_08.00'']\<rparr>"

definition course_pbo :: course where
  "course_pbo = \<lparr>code = ''PBO'', sks = 3, prerequisite_needed = False,
                 schedule_code = ''Senin_08.00''\<rparr>"

definition course_pweb :: course where
  "course_pweb = \<lparr>code = ''Pweb'', sks = 4, prerequisite_needed = True,
                  schedule_code = ''Selasa_10.00''\<rparr>"

definition course_statis :: course where
  "course_statis = \<lparr>code = ''Statis'', sks = 3, prerequisite_needed = True,
                    schedule_code = ''Selasa_14.00''\<rparr>"

definition initial_rules :: "rule list" where
  "initial_rules = [SksLimitRule, PrerequisiteRule]"

definition ocp_rules :: "rule list" where
  "ocp_rules = [SksLimitRule, PrerequisiteRule, JadwalBentrokRule]"

section \<open>Order checkout (refactor\_solid.py)\<close>

subsection \<open>Entity\<close>

text \<open>
  The price of an order is stored and shown in a log line, and nothing is computed
  from it, so its type stays a parameter. A new order is open unless told otherwise.
\<close>

record 'p order =
  customer_name :: string
  total_price :: 'p
  status :: string

definition Order :: "string \<Rightarrow> 'p \<Rightarrow> 'p order" where
  "Order customer price = \<lparr>customer_name = customer, total_price = price,
                            status = ''open''\<rparr>"

subsection \<open>Output\<close>

text \<open>
  What a call writes, in order: a line printed on standard output, with its text, or
  a record given to \<open>LOGGER\<close>, with its level and the values it interpolates.
\<close>

datatype 'p checkout_message =
    Memulai_checkout string 'p
  | Payment_kartu_kredit
  | Payment_qris
  | Notif_mail string
  | Checkout_sukses
  | Pembayaran_gagal
  | Pesan string

datatype 'p event = Print string | Log level "'p checkout_message"

type_synonym ('a, 'p) effect = "'a \<times> 'p order \<times> 'p event list"

fun answer :: "('a, 'p) effect \<Rightarrow> 'a" where
  "answer (b, ord, out) = b"

fun order_after :: "('a, 'p) effect \<Rightarrow> 'p order" where
  "order_after (b, ord, out) = ord"

fun emitted :: "('a, 'p) effect \<Rightarrow> 'p event list" where
  "emitted (b, ord, out) = out"

subsection \<open>The class before the refactoring\<close>

definition process_checkout :: "'p order \<Rightarrow> string \<Rightarrow> (bool, 'p) effect" where
  "process_checkout ord payment_method =
     (if payment_method = ''credit_card''
      then (True, ord\<lparr>status := ''paid''\<rparr>,
            [Print (''Memulai checkout untuk '' @ customer_name ord @ ''...''),
             Print ''Processing Credit Card...'',
             Print (''Mengirim notifikasi ke '' @ customer_name ord @ ''...'')])
      else if payment_method = ''bank_transfer''
      then (True, ord\<lparr>status := ''paid''\<rparr>,
            [Print (''Memulai checkout untuk '' @ customer_name ord @ ''...''),
             Print ''Processing Bank Transfer...'',
             Print (''Mengirim notifikasi ke '' @ customer_name ord @ ''...'')])
      else (False, ord,
            [Print (''Memulai checkout untuk '' @ customer_name ord @ ''...''),
             Print ''Metode tidak valid.'']))"

subsection \<open>Payment processors and notifiers\<close>

text \<open>
  The implementations of the two interfaces. The classes of the module are
  constructors of their own; \<open>Other_processor f\<close> and \<open>Other_notifier g\<close> stand for
  classes written elsewhere that keep the interface: \<open>process\<close> answers with a
  boolean, \<open>send\<close> answers nothing, both may write output and leave the order as it is.
\<close>

datatype 'p payment_processor =
    CreditCardProcessor
  | QrisProcessor
  | Other_processor "'p order \<Rightarrow> bool \<times> 'p event list"

datatype 'p notification_service =
    EmailNotifier
  | Other_notifier "'p order \<Rightarrow> 'p event list"

fun process :: "'p payment_processor \<Rightarrow> 'p order \<Rightarrow> (bool, 'p) effect" where
  "process CreditCardProcessor ord = (True, ord, [Log INFO Payment_kartu_kredit])"
| "process QrisProcessor ord = (True, ord, [Log INFO Payment_qris])"
| "process (Other_processor f) ord = (case f ord of (b, out) \<Rightarrow> (b, ord, out))"

fun send :: "'p notification_service \<Rightarrow> 'p order \<Rightarrow> (unit, 'p) effect" where
  "send EmailNotifier ord = ((), ord, [Log INFO (Notif_mail (customer_name ord))])"
| "send (Other_notifier g) ord = ((), ord, g ord)"

subsection \<open>The coordinator\<close>

definition run_checkout ::
  "'p payment_processor \<Rightarrow> 'p notification_service \<Rightarrow> 'p order \<Rightarrow> (bool, 'p) effect"
where
  "run_checkout payment_processor notifier ord =
     (case process payment_processor ord of (payment_success, ord1, out1) \<Rightarrow>
        if payment_success
        then (case send notifier (ord1\<lparr>status := ''paid''\<rparr>) of (u, ord2, out2) \<Rightarrow>
                (True, ord2,
                 Log INFO (Memulai_checkout (customer_name ord) (total_price ord))
                   # out1 @ out2 @ [Log INFO Checkout_sukses]))
        else (False, ord1,
              Log INFO (Memulai_checkout (customer_name ord) (total_price ord))
                # out1 @ [Log ERROR Pembayaran_gagal]))"

subsection \<open>The data of the main program\<close>

definition andi_order :: "int order" where
  "andi_order = Order ''Andi'' 500000"

definition budi_order :: "int order" where
  "budi_order = Order ''Budi'' 100000"

section \<open>Properties of the registration\<close>

subsection \<open>What a call leaves behind\<close>

text \<open>
  No rule touches the student or the course, so the loop hands every rule the objects
  of the call, and its answer is the conjunction of the answers of the rules.
\<close>

lemma validate_eq:
  "validate r s c = (returned (validate r s c), s, c, logged (validate r s c))"
  by (cases r)
     (simp_all add: SksLimitRule_validate_def PrerequisiteRule_validate_def
        JadwalBentrokRule_validate_def split: prod.splits)

lemma validation_loop_eq:
  "validation_loop rs s c =
     (returned (validation_loop rs s c), s, c, logged (validation_loop rs s c))"
proof (induction rs)
  case Nil
  show ?case by simp
next
  case (Cons r rs)
  obtain b lg where v: "validate r s c = (b, s, c, lg)"
    using validate_eq [of r s c] by blast
  obtain b' lg' where l: "validation_loop rs s c = (b', s, c, lg')"
    using Cons.IH by blast
  show ?case by (simp add: v l)
qed

lemma validation_loop_returned:
  "returned (validation_loop rs s c) \<longleftrightarrow> (\<forall>r\<in>set rs. returned (validate r s c))"
proof (induction rs)
  case Nil
  show ?case by simp
next
  case (Cons r rs)
  obtain b lg where v: "validate r s c = (b, s, c, lg)"
    using validate_eq [of r s c] by blast
  obtain b' lg' where l: "validation_loop rs s c = (b', s, c, lg')"
    using validation_loop_eq [of rs s c] by blast
  from Cons.IH l have "b' \<longleftrightarrow> (\<forall>r\<in>set rs. returned (validate r s c))" by simp
  then show ?case by (simp add: v l)
qed

lemma register_course_returned:
  "returned (register_course rs s c) \<longleftrightarrow> (\<forall>r\<in>set rs. returned (validate r s c))"
proof -
  obtain b lg where l: "validation_loop rs s c = (b, s, c, lg)"
    using validation_loop_eq [of rs s c] by blast
  from validation_loop_returned [of rs s c] l
  have "b \<longleftrightarrow> (\<forall>r\<in>set rs. returned (validate r s c))" by simp
  then show ?thesis by (simp add: register_course_def l)
qed

lemma register_course_student:
  "student_after (register_course rs s c) =
     (if returned (register_course rs s c)
      then s\<lparr>current_sks := current_sks s + sks c, schedule := schedule s @ [schedule_code c]\<rparr>
      else s)"
proof -
  obtain b lg where l: "validation_loop rs s c = (b, s, c, lg)"
    using validation_loop_eq [of rs s c] by blast
  show ?thesis by (simp add: register_course_def l)
qed

lemma register_course_course: "course_after (register_course rs s c) = c"
proof -
  obtain b lg where l: "validation_loop rs s c = (b, s, c, lg)"
    using validation_loop_eq [of rs s c] by blast
  show ?thesis by (simp add: register_course_def l)
qed

lemmas rule_defs = SksLimitRule_validate_def PrerequisiteRule_validate_def
  JadwalBentrokRule_validate_def MAX_SKS_def

subsection \<open>The rules\<close>

text \<open>
  Claim C4. For every student S and course C, \<open>SksLimitRule.validate(S, C)\<close>
  answers true exactly when \<open>S.current_sks + C.sks \<le> 24\<close>, and the call leaves S and
  C as they were.
\<close>

theorem SksLimitRule_validate_iff:
  "(returned (validate SksLimitRule S C) \<longleftrightarrow> current_sks S + sks C \<le> 24)
   \<and> student_after (validate SksLimitRule S C) = S
   \<and> course_after (validate SksLimitRule S C) = C"
  by (simp add: rule_defs)

theorem SksLimitRule_validate_iff_witness:
  "\<not> returned (validate SksLimitRule student_budi course_pweb)
   \<and> student_after (validate SksLimitRule student_budi course_pweb) = student_budi
   \<and> returned (validate SksLimitRule student_andi course_pbo)
   \<and> course_after (validate SksLimitRule student_andi course_pbo) = course_pbo"
proof -
  have sums: "\<not> current_sks student_budi + sks course_pweb \<le> 24"
    "current_sks student_andi + sks course_pbo \<le> 24"
    by (simp_all add: student_budi_def course_pweb_def student_andi_def course_pbo_def)
  show ?thesis
    using SksLimitRule_validate_iff [of student_budi course_pweb]
      SksLimitRule_validate_iff [of student_andi course_pbo] sums
    by simp
qed

text \<open>
  Claim C6. For every student S and course C, \<open>PrerequisiteRule.validate(S, C)\<close>
  answers false exactly when the course needs a prerequisite and the student has not
  met it, and true in every other case; the call leaves S and C as they were.
\<close>

theorem PrerequisiteRule_validate_iff:
  "(\<not> returned (validate PrerequisiteRule S C) \<longleftrightarrow>
      prerequisite_needed C \<and> \<not> prerequisites_met S)
   \<and> (returned (validate PrerequisiteRule S C) \<longleftrightarrow>
      \<not> (prerequisite_needed C \<and> \<not> prerequisites_met S))
   \<and> student_after (validate PrerequisiteRule S C) = S
   \<and> course_after (validate PrerequisiteRule S C) = C"
  by (simp add: rule_defs)

theorem PrerequisiteRule_validate_iff_witness:
  "\<not> returned (validate PrerequisiteRule student_budi course_statis)
   \<and> student_after (validate PrerequisiteRule student_budi course_statis) = student_budi
   \<and> returned (validate PrerequisiteRule student_budi course_pbo)
   \<and> returned (validate PrerequisiteRule student_andi course_statis)"
proof -
  have flags: "prerequisite_needed course_statis" "\<not> prerequisites_met student_budi"
    "\<not> prerequisite_needed course_pbo" "prerequisites_met student_andi"
    by (simp_all add: student_budi_def student_andi_def course_statis_def course_pbo_def)
  show ?thesis
    using PrerequisiteRule_validate_iff [of student_budi course_statis]
      PrerequisiteRule_validate_iff [of student_budi course_pbo]
      PrerequisiteRule_validate_iff [of student_andi course_statis] flags
    by simp
qed

text \<open>
  Claim C5. For every student S and course C, \<open>JadwalBentrokRule.validate(S, C)\<close>
  answers true exactly when \<open>C.schedule_code\<close> is not in \<open>S.schedule\<close> as it is when
  the rule is called, and the call leaves S and C as they were. Inside a run of
  \<open>register_course\<close> that schedule is the one the student had before the run: a
  service that holds the rule refuses a course whose slot the student already holds,
  whatever the other rules say, and leaves the student as it was.
\<close>

theorem JadwalBentrokRule_validate_iff:
  "(returned (validate JadwalBentrokRule S C) \<longleftrightarrow> schedule_code C \<notin> set (schedule S))
   \<and> student_after (validate JadwalBentrokRule S C) = S
   \<and> course_after (validate JadwalBentrokRule S C) = C
   \<and> (JadwalBentrokRule \<in> set rules \<and> schedule_code C \<in> set (schedule S) \<longrightarrow>
        \<not> returned (register_course rules S C)
        \<and> student_after (register_course rules S C) = S)"
proof -
  have v: "returned (validate JadwalBentrokRule S C) \<longleftrightarrow> schedule_code C \<notin> set (schedule S)"
    by (simp add: rule_defs)
  have "\<not> returned (register_course rules S C) \<and> student_after (register_course rules S C) = S"
    if "JadwalBentrokRule \<in> set rules" "schedule_code C \<in> set (schedule S)"
  proof -
    from that v have "\<exists>r\<in>set rules. \<not> returned (validate r S C)" by blast
    then have "\<not> returned (register_course rules S C)"
      by (simp add: register_course_returned)
    then show ?thesis by (simp add: register_course_student)
  qed
  with v show ?thesis by (simp add: rule_defs)
qed

theorem JadwalBentrokRule_validate_iff_witness:
  "JadwalBentrokRule \<in> set ocp_rules
   \<and> schedule_code course_pweb \<in> set (schedule student_andi)
   \<and> \<not> returned (validate JadwalBentrokRule student_andi course_pweb)
   \<and> \<not> returned (register_course ocp_rules student_andi course_pweb)
   \<and> student_after (register_course ocp_rules student_andi course_pweb) = student_andi"
proof -
  have h: "JadwalBentrokRule \<in> set ocp_rules"
    "schedule_code course_pweb \<in> set (schedule student_andi)"
    by (simp_all add: ocp_rules_def student_andi_def course_pweb_def)
  with JadwalBentrokRule_validate_iff [of student_andi course_pweb ocp_rules]
  show ?thesis by simp
qed

subsection \<open>The coordinator\<close>

text \<open>
  Claim C1. For every student S, course C and list of injected rules,
  \<open>register_course(S, C)\<close> answers true exactly when every injected rule answers true
  for S and C; and when it answers true, \<open>S.current_sks\<close> has grown by exactly
  \<open>C.sks\<close> and \<open>C.schedule_code\<close> has been appended at the end of \<open>S.schedule\<close>,
  the other fields being as before.
\<close>

theorem register_course_iff_all_rules:
  "(returned (register_course rules S C) \<longleftrightarrow> (\<forall>r\<in>set rules. returned (validate r S C)))
   \<and> (returned (register_course rules S C) \<longrightarrow>
        current_sks (student_after (register_course rules S C)) = current_sks S + sks C
      \<and> schedule (student_after (register_course rules S C)) = schedule S @ [schedule_code C]
      \<and> student_after (register_course rules S C) =
          S\<lparr>current_sks := current_sks S + sks C,
            schedule := schedule S @ [schedule_code C]\<rparr>)"
  by (simp add: register_course_returned register_course_student)

theorem register_course_iff_all_rules_witness:
  "returned (validate SksLimitRule student_andi course_pbo)
   \<and> returned (validate PrerequisiteRule student_andi course_pbo)
   \<and> returned (register_course initial_rules student_andi course_pbo)
   \<and> current_sks (student_after (register_course initial_rules student_andi course_pbo)) = 18
   \<and> schedule (student_after (register_course initial_rules student_andi course_pbo)) =
        [''Selasa_10.00'', ''Rabu_13.00'', ''Senin_08.00'']
   \<and> \<not> returned (validate SksLimitRule student_budi course_pweb)
   \<and> \<not> returned (register_course ocp_rules student_budi course_pweb)"
proof -
  have each: "returned (validate SksLimitRule student_andi course_pbo)"
    "returned (validate PrerequisiteRule student_andi course_pbo)"
    "\<not> returned (validate SksLimitRule student_budi course_pweb)"
    by (simp_all add: rule_defs student_andi_def student_budi_def course_pbo_def
          course_pweb_def)
  have lists: "set initial_rules = {SksLimitRule, PrerequisiteRule}"
    "SksLimitRule \<in> set ocp_rules"
    by (simp_all add: initial_rules_def ocp_rules_def)
  have vals: "current_sks student_andi + sks course_pbo = 18"
    "schedule student_andi @ [schedule_code course_pbo] =
       [''Selasa_10.00'', ''Rabu_13.00'', ''Senin_08.00'']"
    by (simp_all add: student_andi_def course_pbo_def)
  from each(3) lists(2)
  have some: "\<not> (\<forall>r\<in>set ocp_rules. returned (validate r student_budi course_pweb))"
    by blast
  show ?thesis
    using register_course_iff_all_rules [of initial_rules student_andi course_pbo]
      register_course_iff_all_rules [of ocp_rules student_budi course_pweb]
      each lists(1) vals some
    by simp
qed

text \<open>
  Claim C2. If some injected rule answers false for S and C, then \<open>register_course\<close>
  answers false and the student after the call is the student before it, field for
  field: a failing run changes nothing.
\<close>

theorem register_course_failure_leaves_student:
  assumes "\<exists>r\<in>set rules. \<not> returned (validate r S C)"
  shows "\<not> returned (register_course rules S C)
       \<and> student_after (register_course rules S C) = S
       \<and> course_after (register_course rules S C) = C"
proof -
  from assms have "\<not> returned (register_course rules S C)"
    by (simp add: register_course_returned)
  then show ?thesis
    by (simp add: register_course_student register_course_course)
qed

theorem register_course_failure_leaves_student_witness:
  "(\<exists>r\<in>set ocp_rules. \<not> returned (validate r student_budi course_pweb))
   \<and> \<not> returned (register_course ocp_rules student_budi course_pweb)
   \<and> student_after (register_course ocp_rules student_budi course_pweb) = student_budi
   \<and> current_sks (student_after (register_course ocp_rules student_budi course_pweb)) = 22"
proof -
  have ex: "\<exists>r\<in>set ocp_rules. \<not> returned (validate r student_budi course_pweb)"
    by (simp add: rule_defs ocp_rules_def student_budi_def course_pweb_def)
  have "current_sks student_budi = 22" by (simp add: ocp_rules_def student_budi_def course_pweb_def)
  with register_course_failure_leaves_student [OF ex] ex show ?thesis by simp
qed

lemma validation_loop_first_failure:
  assumes "\<forall>r\<in>set pre. returned (validate r s c)"
    and "\<not> returned (validate r s c)"
  shows "validation_loop (pre @ r # post) s c =
     (False, s, c,
      concat (map (\<lambda>r. logged (validate r s c)) (pre @ [r]))
        @ [(INFO, Pendaftaran_dibatalkan)])"
  using assms(1)
proof (induction pre)
  case Nil
  obtain b lg where v: "validate r s c = (b, s, c, lg)"
    using validate_eq [of r s c] by blast
  with assms(2) show ?case by simp
next
  case (Cons q pre)
  obtain b lg where v: "validate q s c = (b, s, c, lg)"
    using validate_eq [of q s c] by blast
  from Cons.prems v have b by simp
  from Cons have "validation_loop (pre @ r # post) s c =
     (False, s, c,
      concat (map (\<lambda>r. logged (validate r s c)) (pre @ [r]))
        @ [(INFO, Pendaftaran_dibatalkan)])" by simp
  with v \<open>b\<close> show ?case by simp
qed

lemma register_course_first_failure:
  assumes "i < length L"
    and "\<forall>j<i. returned (validate (L ! j) s c)"
    and "\<not> returned (validate (L ! i) s c)"
  shows "register_course L s c =
     (False, s, c,
      (INFO, Memulai_pendaftaran (code c) (name s))
        # concat (map (\<lambda>r. logged (validate r s c)) (take (Suc i) L))
        @ [(INFO, Pendaftaran_dibatalkan)])"
proof -
  have split: "L = take i L @ L ! i # drop (Suc i) L"
    using assms(1) by (rule id_take_nth_drop)
  have pre: "\<forall>r\<in>set (take i L). returned (validate r s c)"
  proof
    fix r assume "r \<in> set (take i L)"
    then obtain j where "j < length (take i L)" "take i L ! j = r"
      by (auto simp: in_set_conv_nth)
    with assms(1,2) show "returned (validate r s c)" by auto
  qed
  have "validation_loop (take i L @ L ! i # drop (Suc i) L) s c =
     (False, s, c,
      concat (map (\<lambda>r. logged (validate r s c)) (take i L @ [L ! i]))
        @ [(INFO, Pendaftaran_dibatalkan)])"
    using pre assms(3) by (rule validation_loop_first_failure)
  moreover have "take i L @ [L ! i] = take (Suc i) L"
    using assms(1) by (simp add: take_Suc_conv_app_nth)
  ultimately have "validation_loop L s c =
     (False, s, c,
      concat (map (\<lambda>r. logged (validate r s c)) (take (Suc i) L))
        @ [(INFO, Pendaftaran_dibatalkan)])"
    using split by simp
  then show ?thesis by (simp add: register_course_def)
qed

text \<open>
  Claim C7. The rules are called in the order of the list and the run stops at the
  first that answers false. If the first failure of a list L for S and C is at index
  i, then the run answers false, the student is unchanged, and the log holds the
  opening line, the records of the rules at indices 0 to i in that order, and the
  cancellation, with nothing from a later rule; and every list that agrees with L up
  to index i gives the same answer, the same student and the same log.
\<close>

theorem register_course_short_circuit:
  assumes "i < length L"
    and "\<forall>j<i. returned (validate (L ! j) S C)"
    and "\<not> returned (validate (L ! i) S C)"
    and "take (Suc i) L' = take (Suc i) L"
  shows "register_course L' S C = register_course L S C
       \<and> \<not> returned (register_course L S C)
       \<and> student_after (register_course L S C) = S
       \<and> logged (register_course L S C) =
           (INFO, Memulai_pendaftaran (code C) (name S))
             # concat (map (\<lambda>r. logged (validate r S C)) (take (Suc i) L))
             @ [(INFO, Pendaftaran_dibatalkan)]"
proof -
  have len: "i < length L'"
  proof -
    from assms(4) have "length (take (Suc i) L') = length (take (Suc i) L)" by simp
    with assms(1) show ?thesis by simp
  qed
  have nth: "L' ! j = L ! j" if "j \<le> i" for j
  proof -
    from that have "j < Suc i" by simp
    then have "take (Suc i) L' ! j = L' ! j" "take (Suc i) L ! j = L ! j" by simp_all
    with assms(4) show ?thesis by simp
  qed
  have "register_course L' S C =
     (False, S, C,
      (INFO, Memulai_pendaftaran (code C) (name S))
        # concat (map (\<lambda>r. logged (validate r S C)) (take (Suc i) L'))
        @ [(INFO, Pendaftaran_dibatalkan)])"
    using len assms(2,3) by (intro register_course_first_failure) (simp_all add: nth)
  moreover have "register_course L S C =
     (False, S, C,
      (INFO, Memulai_pendaftaran (code C) (name S))
        # concat (map (\<lambda>r. logged (validate r S C)) (take (Suc i) L))
        @ [(INFO, Pendaftaran_dibatalkan)])"
    using assms(1,2,3) by (rule register_course_first_failure)
  ultimately show ?thesis using assms(4) by simp
qed

theorem register_course_short_circuit_witness:
  "register_course
       [SksLimitRule, PrerequisiteRule, JadwalBentrokRule,
        Other_rule (\<lambda>s c. (False, [(WARNING, Pesan_lain ''tidak dipanggil'')]))]
       student_andi course_pweb
     = register_course ocp_rules student_andi course_pweb
   \<and> \<not> returned (register_course ocp_rules student_andi course_pweb)
   \<and> student_after (register_course ocp_rules student_andi course_pweb) = student_andi
   \<and> logged (register_course ocp_rules student_andi course_pweb) =
       [(INFO, Memulai_pendaftaran ''Pweb'' ''Andi''),
        (WARNING, Gagal_bentrok ''Selasa_10.00'' ''Andi''),
        (INFO, Pendaftaran_dibatalkan)]"
proof -
  have len: "2 < length ocp_rules" by (simp add: ocp_rules_def student_andi_def course_pweb_def)
  have pass: "\<forall>j<2. returned (validate (ocp_rules ! j) student_andi course_pweb)"
  proof (intro allI impI)
    fix j :: nat assume "j < 2"
    then have "j = 0 \<or> j = 1" by arith
    then show "returned (validate (ocp_rules ! j) student_andi course_pweb)"
      by (auto simp: rule_defs ocp_rules_def student_andi_def course_pweb_def)
  qed
  have fail: "\<not> returned (validate (ocp_rules ! 2) student_andi course_pweb)"
    by (simp add: rule_defs ocp_rules_def student_andi_def course_pweb_def)
  have agree: "take (Suc 2)
       [SksLimitRule, PrerequisiteRule, JadwalBentrokRule,
        Other_rule (\<lambda>s c. (False, [(WARNING, Pesan_lain ''tidak dipanggil'')]))]
     = take (Suc 2) ocp_rules"
    by (simp add: ocp_rules_def student_andi_def course_pweb_def)
  have lg: "(INFO, Memulai_pendaftaran (code course_pweb) (name student_andi))
       # concat (map (\<lambda>r. logged (validate r student_andi course_pweb))
                  (take (Suc 2) ocp_rules))
       @ [(INFO, Pendaftaran_dibatalkan)]
     = [(INFO, Memulai_pendaftaran ''Pweb'' ''Andi''),
        (WARNING, Gagal_bentrok ''Selasa_10.00'' ''Andi''),
        (INFO, Pendaftaran_dibatalkan)]"
    by (simp add: rule_defs ocp_rules_def student_andi_def course_pweb_def)
  show ?thesis
    using register_course_short_circuit [OF len pass fail agree] lg by simp
qed

lemma register_course_sks_bound:
  assumes "SksLimitRule \<in> set rules" and "current_sks s \<le> 24"
  shows "current_sks (student_after (register_course rules s c)) \<le> 24"
proof (cases "returned (register_course rules s c)")
  case True
  then have "\<forall>r\<in>set rules. returned (validate r s c)"
    by (simp add: register_course_returned)
  with assms(1) have "returned (validate SksLimitRule s c)" by blast
  then have "current_sks s + sks c \<le> 24" by (simp add: rule_defs split: if_splits)
  with True show ?thesis by (simp add: register_course_student)
next
  case False
  with assms(2) show ?thesis by (simp add: register_course_student)
qed

lemma register_courses_sks_bound:
  assumes "SksLimitRule \<in> set rules"
  shows "current_sks s \<le> 24 \<Longrightarrow> current_sks (register_courses rules s cs) \<le> 24"
proof (induction cs arbitrary: s)
  case Nil
  then show ?case by simp
next
  case (Cons c cs)
  from assms Cons.prems
  have "current_sks (student_after (register_course rules s c)) \<le> 24"
    by (rule register_course_sks_bound)
  then show ?case by (simp add: Cons.IH)
qed

text \<open>
  Claim C10. If \<open>SksLimitRule\<close> is anywhere in the injected list, a call of
  \<open>register_course\<close> on a student with \<open>current_sks \<le> 24\<close> leaves
  \<open>current_sks \<le> 24\<close>: a successful call sets it to the sum that the rule checked,
  which is at most 24, and a failing call leaves it as it was. So every sequence of
  calls through the service, starting from such a student, keeps the bound.
\<close>

theorem sks_limit_preserved:
  assumes "SksLimitRule \<in> set rules" and "current_sks S \<le> 24"
  shows "current_sks (student_after (register_course rules S C)) \<le> 24
       \<and> (returned (register_course rules S C) \<longrightarrow>
            current_sks (student_after (register_course rules S C)) = current_sks S + sks C
            \<and> current_sks S + sks C \<le> 24)
       \<and> (\<not> returned (register_course rules S C) \<longrightarrow>
            current_sks (student_after (register_course rules S C)) = current_sks S)
       \<and> current_sks (register_courses rules S Cs) \<le> 24"
proof -
  have "current_sks S + sks C \<le> 24" if "returned (register_course rules S C)"
  proof -
    from that have "\<forall>r\<in>set rules. returned (validate r S C)"
      by (simp add: register_course_returned)
    with assms(1) have "returned (validate SksLimitRule S C)" by blast
    then show ?thesis by (simp add: rule_defs split: if_splits)
  qed
  then show ?thesis
    using register_course_sks_bound [OF assms] register_courses_sks_bound [OF assms]
    by (simp add: register_course_student)
qed

theorem sks_limit_preserved_witness:
  "SksLimitRule \<in> set ocp_rules \<and> current_sks student_budi \<le> 24
   \<and> \<not> returned (register_course ocp_rules student_budi course_pweb)
   \<and> current_sks (student_after (register_course ocp_rules student_budi course_pweb)) = 22
   \<and> current_sks (register_courses ocp_rules student_budi
        [course_pweb, course_statis, course_pbo]) \<le> 24
   \<and> current_sks student_andi \<le> 24
   \<and> returned (register_course ocp_rules student_andi course_pbo)
   \<and> current_sks (student_after (register_course ocp_rules student_andi course_pbo)) = 18"
proof -
  have h: "SksLimitRule \<in> set ocp_rules" "current_sks student_budi \<le> 24"
    "current_sks student_andi \<le> 24"
    by (simp_all add: ocp_rules_def student_budi_def student_andi_def course_pweb_def course_pbo_def)
  have f: "\<not> returned (register_course ocp_rules student_budi course_pweb)"
    "returned (register_course ocp_rules student_andi course_pbo)"
    by (simp_all add: register_course_def rule_defs ocp_rules_def student_budi_def student_andi_def course_pweb_def course_pbo_def)
  have vals: "current_sks student_budi = 22" "current_sks student_andi + sks course_pbo = 18"
    by (simp_all add: ocp_rules_def student_budi_def student_andi_def course_pweb_def course_pbo_def)
  show ?thesis
    using sks_limit_preserved [OF h(1,2), of course_pweb "[course_pweb, course_statis, course_pbo]"]
      sks_limit_preserved [OF h(1,3), of course_pbo "[]"] h f vals
    by simp
qed

section \<open>Properties of the checkout\<close>

text \<open>
  Claim C8. In the class kept from before the refactoring,
  \<open>process_checkout(order, payment_method)\<close> with a method that is neither
  \<open>credit_card\<close> nor \<open>bank_transfer\<close> prints the error line and answers false,
  leaving the order and its status as they were; with one of the two methods it sets
  the status to \<open>paid\<close> and answers true.
\<close>

theorem process_checkout_methods:
  "(payment_method \<noteq> ''credit_card'' \<and> payment_method \<noteq> ''bank_transfer'' \<longrightarrow>
      \<not> answer (process_checkout ord payment_method)
    \<and> order_after (process_checkout ord payment_method) = ord
    \<and> status (order_after (process_checkout ord payment_method)) = status ord
    \<and> emitted (process_checkout ord payment_method) =
        [Print (''Memulai checkout untuk '' @ customer_name ord @ ''...''),
         Print ''Metode tidak valid.''])
   \<and> (payment_method = ''credit_card'' \<or> payment_method = ''bank_transfer'' \<longrightarrow>
      answer (process_checkout ord payment_method)
    \<and> status (order_after (process_checkout ord payment_method)) = ''paid''
    \<and> order_after (process_checkout ord payment_method) = ord\<lparr>status := ''paid''\<rparr>
    \<and> Print ''Metode tidak valid.'' \<notin> set (emitted (process_checkout ord payment_method)))"
  by (simp add: process_checkout_def)

theorem process_checkout_methods_witness:
  "''qris'' \<noteq> ''credit_card'' \<and> ''qris'' \<noteq> ''bank_transfer''
   \<and> \<not> answer (process_checkout andi_order ''qris'')
   \<and> status (order_after (process_checkout andi_order ''qris'')) = ''open''
   \<and> emitted (process_checkout andi_order ''qris'') =
        [Print ''Memulai checkout untuk Andi...'', Print ''Metode tidak valid.'']
   \<and> answer (process_checkout andi_order ''bank_transfer'')
   \<and> status (order_after (process_checkout andi_order ''bank_transfer'')) = ''paid''"
proof -
  have h: "''qris'' \<noteq> ''credit_card'' \<and> ''qris'' \<noteq> ''bank_transfer''" by simp
  have vals: "status andi_order = ''open''" "customer_name andi_order = ''Andi''"
    by (simp_all add: andi_order_def Order_def)
  show ?thesis
    using process_checkout_methods [of "''qris''" andi_order]
      process_checkout_methods [of "''bank_transfer''" andi_order] h vals
    by simp
qed

text \<open>
  Neither collaborator touches the order, so \<open>run_checkout\<close> has two outcomes, chosen
  by the answer of the processor alone.
\<close>

lemma process_eq:
  "process pp ord = (answer (process pp ord), ord, emitted (process pp ord))"
  by (cases pp) (simp_all split: prod.splits)

lemma send_eq: "send n ord = ((), ord, emitted (send n ord))"
  by (cases n) simp_all

lemma run_checkout_eq:
  "run_checkout pp n ord =
     (if answer (process pp ord)
      then (True, ord\<lparr>status := ''paid''\<rparr>,
            Log INFO (Memulai_checkout (customer_name ord) (total_price ord))
              # emitted (process pp ord)
              @ emitted (send n (ord\<lparr>status := ''paid''\<rparr>))
              @ [Log INFO Checkout_sukses])
      else (False, ord,
            Log INFO (Memulai_checkout (customer_name ord) (total_price ord))
              # emitted (process pp ord) @ [Log ERROR Pembayaran_gagal]))"
proof -
  obtain b out where p: "process pp ord = (b, ord, out)"
    using process_eq [of pp ord] by blast
  obtain out2 where s: "send n (ord\<lparr>status := ''paid''\<rparr>) = ((), ord\<lparr>status := ''paid''\<rparr>, out2)"
    using send_eq [of n "ord\<lparr>status := ''paid''\<rparr>"] by blast
  show ?thesis by (simp add: run_checkout_def p s)
qed

text \<open>
  Claim C3. For every order O, \<open>run_checkout(O)\<close> answers true exactly when the
  injected processor answers true for O. In that case the status of O is set to
  \<open>paid\<close> and the notifier is sent the order, after the processor and before the
  closing line. Otherwise the order is unchanged, so an order that was \<open>open\<close> stays
  \<open>open\<close>, and the notifier is not called: the output holds the opening line, what
  the processor wrote and the error line, and the whole outcome is the same whatever
  notifier is injected.
\<close>

theorem run_checkout_iff_processor:
  "(answer (run_checkout pp n ord) \<longleftrightarrow> answer (process pp ord))
   \<and> (answer (process pp ord) \<longrightarrow>
        order_after (run_checkout pp n ord) = ord\<lparr>status := ''paid''\<rparr>
      \<and> status (order_after (run_checkout pp n ord)) = ''paid''
      \<and> emitted (run_checkout pp n ord) =
          Log INFO (Memulai_checkout (customer_name ord) (total_price ord))
            # emitted (process pp ord)
            @ emitted (send n (ord\<lparr>status := ''paid''\<rparr>))
            @ [Log INFO Checkout_sukses])
   \<and> (\<not> answer (process pp ord) \<longrightarrow>
        order_after (run_checkout pp n ord) = ord
      \<and> (status ord = ''open'' \<longrightarrow> status (order_after (run_checkout pp n ord)) = ''open'')
      \<and> emitted (run_checkout pp n ord) =
          Log INFO (Memulai_checkout (customer_name ord) (total_price ord))
            # emitted (process pp ord) @ [Log ERROR Pembayaran_gagal]
      \<and> (\<forall>n'. run_checkout pp n' ord = run_checkout pp n ord))"
  by (simp add: run_checkout_eq)

theorem run_checkout_iff_processor_witness:
  "answer (process CreditCardProcessor andi_order)
   \<and> answer (run_checkout CreditCardProcessor EmailNotifier andi_order)
   \<and> status (order_after (run_checkout CreditCardProcessor EmailNotifier andi_order)) = ''paid''
   \<and> emitted (run_checkout CreditCardProcessor EmailNotifier andi_order) =
       [Log INFO (Memulai_checkout ''Andi'' 500000), Log INFO Payment_kartu_kredit,
        Log INFO (Notif_mail ''Andi''), Log INFO Checkout_sukses]
   \<and> \<not> answer (process (Other_processor (\<lambda>ord. (False, []))) andi_order)
   \<and> status andi_order = ''open''
   \<and> \<not> answer (run_checkout (Other_processor (\<lambda>ord. (False, []))) EmailNotifier andi_order)
   \<and> order_after (run_checkout (Other_processor (\<lambda>ord. (False, []))) EmailNotifier andi_order)
       = andi_order
   \<and> status (order_after
        (run_checkout (Other_processor (\<lambda>ord. (False, []))) EmailNotifier andi_order)) = ''open''
   \<and> emitted (run_checkout (Other_processor (\<lambda>ord. (False, []))) EmailNotifier andi_order) =
       [Log INFO (Memulai_checkout ''Andi'' 500000), Log ERROR Pembayaran_gagal]"
proof -
  have ok: "answer (process CreditCardProcessor andi_order)" by simp
  have no: "\<not> answer (process (Other_processor (\<lambda>ord. (False, []))) andi_order)" by simp
  have st: "status andi_order = ''open''" by (simp add: andi_order_def Order_def)
  have vals: "customer_name andi_order = ''Andi''" "total_price andi_order = 500000"
    "emitted (process CreditCardProcessor andi_order) = [Log INFO Payment_kartu_kredit]"
    "emitted (send EmailNotifier (andi_order\<lparr>status := ''paid''\<rparr>)) = [Log INFO (Notif_mail ''Andi'')]"
    "emitted (process (Other_processor (\<lambda>ord. (False, []))) andi_order) = []"
    by (simp_all add: andi_order_def Order_def)
  show ?thesis
    using run_checkout_iff_processor [of CreditCardProcessor EmailNotifier andi_order]
      run_checkout_iff_processor [of "Other_processor (\<lambda>ord. (False, []))" EmailNotifier andi_order]
      ok no st vals
    by simp
qed

text \<open>
  Claim C9. \<open>run_checkout\<close> never looks at the status the order has. Whatever the
  status, if the processor answers true the call answers true, the status becomes
  \<open>paid\<close> and the notifier is sent the order; an order that is already \<open>paid\<close> is
  checked out again, comes out as it went in, and is notified again; and a failing
  call leaves the status, whatever it was, unchanged.
\<close>

theorem run_checkout_ignores_status:
  "(answer (process pp ord) \<longrightarrow>
      answer (run_checkout pp n ord)
    \<and> status (order_after (run_checkout pp n ord)) = ''paid''
    \<and> emitted (run_checkout pp n ord) =
        Log INFO (Memulai_checkout (customer_name ord) (total_price ord))
          # emitted (process pp ord)
          @ emitted (send n (ord\<lparr>status := ''paid''\<rparr>))
          @ [Log INFO Checkout_sukses])
   \<and> (answer (process pp ord) \<and> status ord = ''paid'' \<longrightarrow>
      run_checkout pp n ord =
        (True, ord,
         Log INFO (Memulai_checkout (customer_name ord) (total_price ord))
           # emitted (process pp ord) @ emitted (send n ord) @ [Log INFO Checkout_sukses]))
   \<and> (answer (process pp ord)
        \<and> answer (process pp (order_after (run_checkout pp n ord))) \<longrightarrow>
      run_checkout pp n (order_after (run_checkout pp n ord)) =
        (True, ord\<lparr>status := ''paid''\<rparr>,
         Log INFO (Memulai_checkout (customer_name ord) (total_price ord))
           # emitted (process pp (ord\<lparr>status := ''paid''\<rparr>))
           @ emitted (send n (ord\<lparr>status := ''paid''\<rparr>))
           @ [Log INFO Checkout_sukses]))
   \<and> (\<not> answer (process pp ord) \<longrightarrow>
      \<not> answer (run_checkout pp n ord)
    \<and> order_after (run_checkout pp n ord) = ord
    \<and> status (order_after (run_checkout pp n ord)) = status ord)"
proof -
  have again: "run_checkout pp n ord =
      (True, ord,
       Log INFO (Memulai_checkout (customer_name ord) (total_price ord))
         # emitted (process pp ord) @ emitted (send n ord) @ [Log INFO Checkout_sukses])"
    if "answer (process pp ord)" and "status ord = ''paid''"
  proof -
    from that(2) have same: "ord\<lparr>status := ''paid''\<rparr> = ord" by simp
    from that(1) show ?thesis by (simp add: run_checkout_eq same)
  qed
  have rest: "answer (process pp ord) \<longrightarrow>
      answer (run_checkout pp n ord)
    \<and> status (order_after (run_checkout pp n ord)) = ''paid''
    \<and> emitted (run_checkout pp n ord) =
        Log INFO (Memulai_checkout (customer_name ord) (total_price ord))
          # emitted (process pp ord)
          @ emitted (send n (ord\<lparr>status := ''paid''\<rparr>))
          @ [Log INFO Checkout_sukses]"
    "answer (process pp ord)
        \<and> answer (process pp (order_after (run_checkout pp n ord))) \<longrightarrow>
      run_checkout pp n (order_after (run_checkout pp n ord)) =
        (True, ord\<lparr>status := ''paid''\<rparr>,
         Log INFO (Memulai_checkout (customer_name ord) (total_price ord))
           # emitted (process pp (ord\<lparr>status := ''paid''\<rparr>))
           @ emitted (send n (ord\<lparr>status := ''paid''\<rparr>))
           @ [Log INFO Checkout_sukses])"
    "\<not> answer (process pp ord) \<longrightarrow>
      \<not> answer (run_checkout pp n ord)
    \<and> order_after (run_checkout pp n ord) = ord
    \<and> status (order_after (run_checkout pp n ord)) = status ord"
    by (simp_all add: run_checkout_eq)
  from again rest show ?thesis by blast
qed

theorem run_checkout_ignores_status_witness:
  "answer (process QrisProcessor (budi_order\<lparr>status := ''paid''\<rparr>))
   \<and> status (budi_order\<lparr>status := ''paid''\<rparr>) = ''paid''
   \<and> run_checkout QrisProcessor EmailNotifier (budi_order\<lparr>status := ''paid''\<rparr>) =
       (True, budi_order\<lparr>status := ''paid''\<rparr>,
        [Log INFO (Memulai_checkout ''Budi'' 100000), Log INFO Payment_qris,
         Log INFO (Notif_mail ''Budi''), Log INFO Checkout_sukses])
   \<and> run_checkout QrisProcessor EmailNotifier
        (order_after (run_checkout QrisProcessor EmailNotifier budi_order)) =
       (True, budi_order\<lparr>status := ''paid''\<rparr>,
        [Log INFO (Memulai_checkout ''Budi'' 100000), Log INFO Payment_qris,
         Log INFO (Notif_mail ''Budi''), Log INFO Checkout_sukses])
   \<and> \<not> answer (process (Other_processor (\<lambda>ord. (False, [])))
          (budi_order\<lparr>status := ''refunded''\<rparr>))
   \<and> \<not> answer (run_checkout (Other_processor (\<lambda>ord. (False, []))) EmailNotifier
          (budi_order\<lparr>status := ''refunded''\<rparr>))
   \<and> status (order_after (run_checkout (Other_processor (\<lambda>ord. (False, []))) EmailNotifier
          (budi_order\<lparr>status := ''refunded''\<rparr>))) = ''refunded''"
proof -
  have ok: "answer (process QrisProcessor (budi_order\<lparr>status := ''paid''\<rparr>))"
    "answer (process QrisProcessor budi_order)"
    "answer (process QrisProcessor
       (order_after (run_checkout QrisProcessor EmailNotifier budi_order)))"
    by simp_all
  have no: "\<not> answer (process (Other_processor (\<lambda>ord. (False, [])))
      (budi_order\<lparr>status := ''refunded''\<rparr>))"
    by simp
  have vals: "customer_name budi_order = ''Budi''" "total_price budi_order = 100000"
    "emitted (process QrisProcessor (budi_order\<lparr>status := ''paid''\<rparr>)) = [Log INFO Payment_qris]"
    "emitted (send EmailNotifier (budi_order\<lparr>status := ''paid''\<rparr>)) =
       [Log INFO (Notif_mail ''Budi'')]"
    by (simp_all add: budi_order_def Order_def)
  show ?thesis
    using run_checkout_ignores_status
        [of QrisProcessor "budi_order\<lparr>status := ''paid''\<rparr>" EmailNotifier]
      run_checkout_ignores_status [of QrisProcessor budi_order EmailNotifier]
      run_checkout_ignores_status
        [of "Other_processor (\<lambda>ord. (False, []))" "budi_order\<lparr>status := ''refunded''\<rparr>"
            EmailNotifier]
      ok no vals
    by simp
qed

end
